theory Spec2Isabelle
  imports Main
begin

section \<open>Values of the program\<close>

text \<open>
  The routes of \<^verbatim>\<open>src/routes/auth.js\<close> read JSON request bodies, read and
  write user documents through the \<^verbatim>\<open>User\<close> model, and answer with
  \<^verbatim>\<open>res.status(n).json(body)\<close>. JSON values and documents are modelled as the
  code sees them: an object is a list of properties, and a property that is
  \<^verbatim>\<open>undefined\<close> is the value \<open>None\<close> of an option.
\<close>

datatype json =
    JNull
  | JBool bool
  | JNum int
  | JStr string
  | JObj "(string \<times> json) list"

type_synonym doc = "(string \<times> json) list"

text \<open>A thrown JavaScript \<^verbatim>\<open>Error\<close>; the handlers only read \<^verbatim>\<open>error.message\<close>.\<close>

datatype error = Error string

fun message :: "error \<Rightarrow> string" where
  "message (Error m) = m"

text \<open>
  JavaScript's \<^verbatim>\<open>!v\<close>, as in \<^verbatim>\<open>!email\<close> and \<^verbatim>\<open>!password\<close>:
  \<^verbatim>\<open>undefined\<close>, \<^verbatim>\<open>null\<close>, \<^verbatim>\<open>false\<close>, \<^verbatim>\<open>0\<close> and the
  empty string are falsy.
\<close>

fun falsy :: "json option \<Rightarrow> bool" where
  "falsy None = True"
| "falsy (Some JNull) = True"
| "falsy (Some (JBool b)) = (b = False)"
| "falsy (Some (JNum n)) = (n = 0)"
| "falsy (Some (JStr s)) = (s = [])"
| "falsy (Some (JObj kvs)) = False"

text \<open>
  Property access \<^verbatim>\<open>v.k\<close>: a \<^verbatim>\<open>TypeError\<close> on \<^verbatim>\<open>null\<close>,
  \<^verbatim>\<open>undefined\<close> for a property that is absent.
\<close>

fun member :: "json \<Rightarrow> string \<Rightarrow> error + json option" where
  "member JNull k = Inl (Error (''Cannot read properties of null (reading '' @ k @ '')''))"
| "member (JObj kvs) k = Inr (map_of kvs k)"
| "member v k = Inr None"

text \<open>
  The properties of a value that is destructured, as in
  \<^verbatim>\<open>const { email, password } = req.body\<close>: a \<^verbatim>\<open>TypeError\<close> when
  the value is \<^verbatim>\<open>null\<close> or \<^verbatim>\<open>undefined\<close>, no property on a
  number, a boolean or a string.
\<close>

fun properties :: "json \<Rightarrow> error + doc" where
  "properties JNull = Inl (Error ''Cannot destructure property of req.body as it is undefined.'')"
| "properties (JObj kvs) = Inr kvs"
| "properties v = Inr []"

text \<open>
  An object literal as \<^verbatim>\<open>res.json\<close> and \<^verbatim>\<open>jwt.sign\<close> serialise it:
  properties whose value is \<^verbatim>\<open>undefined\<close> are left out.
\<close>

definition obj :: "(string \<times> json option) list \<Rightarrow> json" where
  "obj kvs = JObj (List.map_filter (\<lambda>(k, v). map_option (Pair k) v) kvs)"

record response =
  status :: nat
  body :: json

record request =
  authorization :: "string option"
  reqBody :: json
  user :: "doc option"

text \<open>\<^verbatim>\<open>process.env\<close>: a variable that is not set reads as \<^verbatim>\<open>undefined\<close>.\<close>

record env =
  JWT_SECRET :: "string option"
  JWT_EXPIRES_IN :: "string option"

section \<open>Collaborators\<close>

text \<open>
  The \<^verbatim>\<open>User\<close> model (\<^verbatim>\<open>../models/User\<close>) and the
  \<^verbatim>\<open>jsonwebtoken\<close> library are not among the sources. The routes are
  modelled over any implementation of the calls they make: each call returns
  its result or throws (\<open>Inl\<close>). A lookup takes the store, the filter object
  and the argument of \<^verbatim>\<open>.select(...)\<close>, when there is one; only
  \<^verbatim>\<open>User.create\<close> returns a new store. \<^verbatim>\<open>jwt.sign\<close> and
  \<^verbatim>\<open>jwt.verify\<close> read the clock, given in seconds.
\<close>

record 'db collab =
  User_findOne :: "'db \<Rightarrow> (string \<times> json option) list \<Rightarrow> string option \<Rightarrow> error + doc option"
  User_findById :: "'db \<Rightarrow> json option \<Rightarrow> string option \<Rightarrow> error + doc option"
  User_create :: "'db \<Rightarrow> (string \<times> json option) list \<Rightarrow> error + (doc \<times> 'db)"
  comparePassword :: "doc \<Rightarrow> json option \<Rightarrow> error + bool"
  jwt_sign :: "json \<Rightarrow> string option \<Rightarrow> string option \<Rightarrow> nat \<Rightarrow> error + string"
  jwt_verify :: "string \<Rightarrow> string option \<Rightarrow> nat \<Rightarrow> error + json"

section \<open>Strings\<close>

text \<open>\<^verbatim>\<open>s.startsWith(p)\<close> and \<^verbatim>\<open>s.split(sep)\<close> for a one-character separator.\<close>

fun startsWith :: "string \<Rightarrow> string \<Rightarrow> bool" where
  "startsWith s [] = True"
| "startsWith [] (p # ps) = False"
| "startsWith (c # cs) (p # ps) = (c = p \<and> startsWith cs ps)"

fun split :: "char \<Rightarrow> string \<Rightarrow> string list" where
  "split sep [] = [[]]"
| "split sep (c # cs) =
     (if c = sep then [] # split sep cs
      else (case split sep cs of
              [] \<Rightarrow> [[c]]
            | piece # pieces \<Rightarrow> (c # piece) # pieces))"

text \<open>\<^verbatim>\<open>xs[i]\<close>: \<^verbatim>\<open>undefined\<close> out of range.\<close>

fun at :: "'a list \<Rightarrow> nat \<Rightarrow> 'a option" where
  "at [] i = None"
| "at (x # xs) 0 = Some x"
| "at (x # xs) (Suc i) = at xs i"

section \<open>Responses\<close>

definition json_response :: "nat \<Rightarrow> json \<Rightarrow> response" where
  "json_response n b = \<lparr>status = n, body = b\<rparr>"

definition errorBody :: "string \<Rightarrow> json" where
  "errorBody m = JObj [(''status'', JStr ''error''), (''message'', JStr m)]"

definition successMessage :: "string \<Rightarrow> json" where
  "successMessage m = JObj [(''status'', JStr ''success''), (''message'', JStr m)]"

text \<open>The user object of register, login and admin login.\<close>

definition userSummary :: "doc \<Rightarrow> json" where
  "userSummary u = obj
     [(''id'', map_of u ''_id''),
      (''email'', map_of u ''email''),
      (''firstName'', map_of u ''firstName''),
      (''lastName'', map_of u ''lastName''),
      (''role'', map_of u ''role'')]"

text \<open>The user object of \<^verbatim>\<open>GET /me\<close>.\<close>

definition userProfile :: "doc \<Rightarrow> json" where
  "userProfile u = obj
     [(''id'', map_of u ''_id''),
      (''email'', map_of u ''email''),
      (''firstName'', map_of u ''firstName''),
      (''lastName'', map_of u ''lastName''),
      (''role'', map_of u ''role''),
      (''phone'', map_of u ''phone''),
      (''address'', map_of u ''address''),
      (''languagePreference'', map_of u ''languagePreference''),
      (''createdAt'', map_of u ''createdAt''),
      (''updatedAt'', map_of u ''updatedAt'')]"

definition tokenBody :: "string \<Rightarrow> doc \<Rightarrow> json" where
  "tokenBody token u = JObj
     [(''status'', JStr ''success''),
      (''token'', JStr token),
      (''data'', JObj [(''user'', userSummary u)])]"

definition profileBody :: "doc \<Rightarrow> json" where
  "profileBody u = JObj
     [(''status'', JStr ''success''),
      (''data'', JObj [(''user'', userProfile u)])]"

text \<open>
  \<^verbatim>\<open>jwt.sign({ id: user._id }, process.env.JWT_SECRET,
  { expiresIn: process.env.JWT_EXPIRES_IN })\<close>, the same call in the three
  routes that issue a token.
\<close>

definition tokenPayload :: "doc \<Rightarrow> json" where
  "tokenPayload u = obj [(''id'', map_of u ''_id'')]"

definition signToken :: "'db collab \<Rightarrow> env \<Rightarrow> nat \<Rightarrow> doc \<Rightarrow> error + string" where
  "signToken c e now u = jwt_sign c (tokenPayload u) (JWT_SECRET e) (JWT_EXPIRES_IN e) now"

section \<open>The middleware \<^verbatim>\<open>protect\<close>\<close>

datatype middleware = Respond response | Next request

definition unauthorized :: response where
  "unauthorized = json_response 401 (errorBody ''Not authorized to access this route'')"

text \<open>
  The token is the second piece of the header split at spaces, when the header
  starts with \<^verbatim>\<open>Bearer\<close>.
\<close>

definition bearerToken :: "request \<Rightarrow> string option" where
  "bearerToken req =
     (case authorization req of
        None \<Rightarrow> None
      | Some a \<Rightarrow>
          if a \<noteq> [] \<and> startsWith a ''Bearer'' then at (split (CHR '' '') a) 1 else None)"

definition protect :: "'db collab \<Rightarrow> env \<Rightarrow> 'db \<Rightarrow> nat \<Rightarrow> request \<Rightarrow> middleware" where
  "protect c e db now req =
     (case bearerToken req of
        None \<Rightarrow> Respond unauthorized
      | Some token \<Rightarrow>
          if token = [] then Respond unauthorized
          else
            (case jwt_verify c token (JWT_SECRET e) now of
               Inl err \<Rightarrow> Respond unauthorized
             | Inr decoded \<Rightarrow>
                 (case member decoded ''id'' of
                    Inl err \<Rightarrow> Respond unauthorized
                  | Inr i \<Rightarrow>
                      (case User_findById c db i (Some ''-password'') of
                         Inl err \<Rightarrow> Respond unauthorized
                       | Inr u \<Rightarrow> Next (req\<lparr>user := u\<rparr>)))))"

section \<open>The routes\<close>

text \<open>
  Every route takes the store and returns its response with the store after
  the request. \<^verbatim>\<open>authLimiter\<close> (\<^verbatim>\<open>../middleware\<close>, not among the
  sources) runs before the login handlers; the handlers are modelled from the
  point where it has let the request through.
\<close>

definition register :: "'db collab \<Rightarrow> env \<Rightarrow> 'db \<Rightarrow> nat \<Rightarrow> request \<Rightarrow> response \<times> 'db" where
  "register c e db now req =
     (case properties (reqBody req) of
        Inl err \<Rightarrow> (json_response 400 (errorBody (message err)), db)
      | Inr b \<Rightarrow>
          (case User_findOne c db [(''email'', map_of b ''email'')] None of
             Inl err \<Rightarrow> (json_response 400 (errorBody (message err)), db)
           | Inr (Some userExists) \<Rightarrow>
               (json_response 400 (errorBody ''User already exists''), db)
           | Inr None \<Rightarrow>
               (case User_create c db
                       [(''email'', map_of b ''email''),
                        (''password'', map_of b ''password''),
                        (''firstName'', map_of b ''firstName''),
                        (''lastName'', map_of b ''lastName''),
                        (''phone'', map_of b ''phone'')] of
                  Inl err \<Rightarrow> (json_response 400 (errorBody (message err)), db)
                | Inr (u, db') \<Rightarrow>
                    (case signToken c e now u of
                       Inl err \<Rightarrow> (json_response 400 (errorBody (message err)), db')
                     | Inr token \<Rightarrow> (json_response 201 (tokenBody token u), db')))))"

definition login :: "'db collab \<Rightarrow> env \<Rightarrow> 'db \<Rightarrow> nat \<Rightarrow> request \<Rightarrow> response \<times> 'db" where
  "login c e db now req =
     (case properties (reqBody req) of
        Inl err \<Rightarrow> (json_response 400 (errorBody (message err)), db)
      | Inr b \<Rightarrow>
          if falsy (map_of b ''email'') \<or> falsy (map_of b ''password'')
          then (json_response 400 (errorBody ''Please provide email and password''), db)
          else
            (case User_findOne c db [(''email'', map_of b ''email'')] (Some ''+password'') of
               Inl err \<Rightarrow> (json_response 400 (errorBody (message err)), db)
             | Inr None \<Rightarrow> (json_response 401 (errorBody ''Invalid credentials''), db)
             | Inr (Some u) \<Rightarrow>
                 (case comparePassword c u (map_of b ''password'') of
                    Inl err \<Rightarrow> (json_response 400 (errorBody (message err)), db)
                  | Inr False \<Rightarrow> (json_response 401 (errorBody ''Invalid credentials''), db)
                  | Inr True \<Rightarrow>
                      (case signToken c e now u of
                         Inl err \<Rightarrow> (json_response 400 (errorBody (message err)), db)
                       | Inr token \<Rightarrow> (json_response 200 (tokenBody token u), db)))))"

text \<open>
  \<^verbatim>\<open>GET /me\<close> after \<^verbatim>\<open>protect\<close>. Reading \<^verbatim>\<open>req.user._id\<close> when
  \<^verbatim>\<open>req.user\<close> is \<^verbatim>\<open>null\<close> throws inside the \<^verbatim>\<open>try\<close>.
\<close>

definition me :: "'db collab \<Rightarrow> 'db \<Rightarrow> request \<Rightarrow> response \<times> 'db" where
  "me c db req =
     (case user req of
        None \<Rightarrow> (json_response 500 (errorBody ''Error retrieving user profile''), db)
      | Some ru \<Rightarrow>
          (case User_findById c db (map_of ru ''_id'') (Some ''-password'') of
             Inl err \<Rightarrow> (json_response 500 (errorBody ''Error retrieving user profile''), db)
           | Inr None \<Rightarrow> (json_response 404 (errorBody ''User not found''), db)
           | Inr (Some u) \<Rightarrow> (json_response 200 (profileBody u), db)))"

definition me_route :: "'db collab \<Rightarrow> env \<Rightarrow> 'db \<Rightarrow> nat \<Rightarrow> request \<Rightarrow> response \<times> 'db" where
  "me_route c e db now req =
     (case protect c e db now req of
        Respond r \<Rightarrow> (r, db)
      | Next req' \<Rightarrow> me c db req')"

text \<open>\<^verbatim>\<open>POST /logout\<close>: the handler answers and does nothing else.\<close>

definition logout :: "'db \<Rightarrow> request \<Rightarrow> response \<times> 'db" where
  "logout db req = (json_response 200 (successMessage ''Logged out successfully''), db)"

definition logout_route :: "'db collab \<Rightarrow> env \<Rightarrow> 'db \<Rightarrow> nat \<Rightarrow> request \<Rightarrow> response \<times> 'db" where
  "logout_route c e db now req =
     (case protect c e db now req of
        Respond r \<Rightarrow> (r, db)
      | Next req' \<Rightarrow> logout db req')"

definition adminLogin :: "'db collab \<Rightarrow> env \<Rightarrow> 'db \<Rightarrow> nat \<Rightarrow> request \<Rightarrow> response \<times> 'db" where
  "adminLogin c e db now req =
     (case properties (reqBody req) of
        Inl err \<Rightarrow> (json_response 500 (errorBody ''Error during admin login''), db)
      | Inr b \<Rightarrow>
          if falsy (map_of b ''email'') \<or> falsy (map_of b ''password'')
          then (json_response 400 (errorBody ''Please provide email and password''), db)
          else
            (case User_findOne c db
                    [(''email'', map_of b ''email''), (''role'', Some (JStr ''admin''))]
                    (Some ''+password'') of
               Inl err \<Rightarrow> (json_response 500 (errorBody ''Error during admin login''), db)
             | Inr None \<Rightarrow> (json_response 401 (errorBody ''Invalid admin credentials''), db)
             | Inr (Some u) \<Rightarrow>
                 (case comparePassword c u (map_of b ''password'') of
                    Inl err \<Rightarrow> (json_response 500 (errorBody ''Error during admin login''), db)
                  | Inr False \<Rightarrow>
                      (json_response 401 (errorBody ''Invalid admin credentials''), db)
                  | Inr True \<Rightarrow>
                      (case signToken c e now u of
                         Inl err \<Rightarrow>
                           (json_response 500 (errorBody ''Error during admin login''), db)
                       | Inr token \<Rightarrow> (json_response 200 (tokenBody token u), db)))))"

text \<open>
  \<^verbatim>\<open>POST /admin/logout\<close> has no \<^verbatim>\<open>try\<close>: reading \<^verbatim>\<open>req.user.role\<close>
  when \<^verbatim>\<open>req.user\<close> is \<^verbatim>\<open>null\<close> rejects the handler's promise and no
  response is sent (\<open>Inl\<close>).
\<close>

definition adminLogout :: "request \<Rightarrow> error + response" where
  "adminLogout req =
     (case user req of
        None \<Rightarrow> Inl (Error ''Cannot read properties of null (reading role)'')
      | Some ru \<Rightarrow>
          if map_of ru ''role'' \<noteq> Some (JStr ''admin'')
          then Inr (json_response 403 (errorBody ''Access denied. Admin only.''))
          else Inr (json_response 200 (successMessage ''Admin logged out successfully'')))"

definition adminLogout_route ::
  "'db collab \<Rightarrow> env \<Rightarrow> 'db \<Rightarrow> nat \<Rightarrow> request \<Rightarrow> error + response" where
  "adminLogout_route c e db now req =
     (case protect c e db now req of
        Respond r \<Rightarrow> Inr r
      | Next req' \<Rightarrow> adminLogout req')"

section \<open>Observations on responses and stores\<close>

text \<open>The user object of a response body, \<^verbatim>\<open>body.data.user\<close>.\<close>

definition userObject :: "json \<Rightarrow> json option" where
  "userObject b =
     (case member b ''data'' of
        Inr (Some d) \<Rightarrow> (case member d ''user'' of Inr (Some u) \<Rightarrow> Some u | _ \<Rightarrow> None)
      | _ \<Rightarrow> None)"

text \<open>The body has a user object, and none of its properties is named \<^verbatim>\<open>password\<close>.\<close>

definition omitsPassword :: "json \<Rightarrow> bool" where
  "omitsPassword b =
     (case userObject b of
        Some (JObj kvs) \<Rightarrow> ''password'' \<notin> set (map fst kvs)
      | _ \<Rightarrow> False)"

text \<open>
  What admin login expects of the lookup it makes: a document found with the
  filter \<^verbatim>\<open>{ email, role: 'admin' }\<close> has the role \<^verbatim>\<open>admin\<close>.
\<close>

definition admin_lookup_sound :: "'db collab \<Rightarrow> 'db \<Rightarrow> bool" where
  "admin_lookup_sound c db =
     (\<forall>email u. User_findOne c db [(''email'', email), (''role'', Some (JStr ''admin''))]
                   (Some ''+password'') = Inr (Some u)
                 \<longrightarrow> map_of u ''role'' = Some (JStr ''admin''))"

section \<open>A reference implementation of the collaborators\<close>

text \<open>
  The theorems below hold for every implementation of the collaborators. To
  run the routes on concrete requests, this section gives one small executable
  implementation: a store that is a list of documents, and tokens that are
  readable strings.
\<close>

subsection \<open>Decimal numbers in strings\<close>

fun digit :: "nat \<Rightarrow> char" where
  "digit d = ''0123456789'' ! d"

fun show_nat :: "nat \<Rightarrow> string" where
  "show_nat n = (if n < 10 then [digit n] else show_nat (n div 10) @ [digit (n mod 10)])"

definition digit_val :: "char \<Rightarrow> nat option" where
  "digit_val c = map_of
     [(CHR ''0'', 0), (CHR ''1'', 1), (CHR ''2'', 2), (CHR ''3'', 3), (CHR ''4'', 4),
      (CHR ''5'', 5), (CHR ''6'', 6), (CHR ''7'', 7), (CHR ''8'', 8), (CHR ''9'', 9)] c"

fun parse_digits :: "nat \<Rightarrow> string \<Rightarrow> nat option" where
  "parse_digits acc [] = Some acc"
| "parse_digits acc (c # cs) =
     (case digit_val c of
        None \<Rightarrow> None
      | Some d \<Rightarrow> parse_digits (10 * acc + d) cs)"

definition parse_nat :: "string \<Rightarrow> nat option" where
  "parse_nat s = (if s = [] then None else parse_digits 0 s)"

subsection \<open>The store\<close>

text \<open>
  Modelled from the spec: the data-store collaborator behind the
  \<^verbatim>\<open>User\<close> model, whose source \<^verbatim>\<open>models/User.js\<close> is missing. The
  spec asks for key-based lookup, a unique index on \<^verbatim>\<open>email\<close>, roles
  among customer, staff and admin, and a password kept only as a hash. The
  password is left out of a lookup unless \<^verbatim>\<open>+password\<close> is selected, which
  is what the routes' \<^verbatim>\<open>.select('+password')\<close> relies on. The hash here is
  a placeholder, not a cryptographic one.
\<close>

type_synonym store = "doc list"

text \<open>
  Modelled from the spec: whether a document satisfies a filter object, for the
  lookups of the missing \<^verbatim>\<open>User\<close> model; a filter property that is
  \<^verbatim>\<open>undefined\<close> is satisfied by a document that lacks it.
\<close>

definition matches :: "doc \<Rightarrow> (string \<times> json option) list \<Rightarrow> bool" where
  "matches d q =
     list_all (\<lambda>(k, v). case v of
                          None \<Rightarrow> map_of d k = None \<or> map_of d k = Some JNull
                        | Some x \<Rightarrow> map_of d k = Some x) q"

text \<open>
  Modelled from the spec: \<^verbatim>\<open>.select(...)\<close> of the missing \<^verbatim>\<open>User\<close>
  model; the password hash is dropped unless \<^verbatim>\<open>+password\<close> is asked for.
\<close>

definition select :: "string option \<Rightarrow> doc \<Rightarrow> doc" where
  "select sel d =
     (if sel = Some ''+password'' then d else filter (\<lambda>(k, v). k \<noteq> ''password'') d)"

text \<open>
  Modelled from the spec: \<^verbatim>\<open>User.findOne(filter)\<close> of the missing
  \<^verbatim>\<open>User\<close> model, the first document that satisfies the filter.
\<close>

definition store_findOne ::
  "store \<Rightarrow> (string \<times> json option) list \<Rightarrow> string option \<Rightarrow> error + doc option" where
  "store_findOne db q sel = Inr (map_option (select sel) (find (\<lambda>d. matches d q) db))"

text \<open>
  Modelled from the spec: \<^verbatim>\<open>User.findById(id)\<close> of the missing
  \<^verbatim>\<open>User\<close> model, the key-based lookup.
\<close>

definition store_findById ::
  "store \<Rightarrow> json option \<Rightarrow> string option \<Rightarrow> error + doc option" where
  "store_findById db i sel =
     (case i of
        None \<Rightarrow> Inr None
      | Some v \<Rightarrow> Inr (map_option (select sel) (find (\<lambda>d. map_of d ''_id'' = Some v) db)))"

text \<open>
  Modelled from the spec: the irreversible hash under which the missing
  \<^verbatim>\<open>User\<close> model stores a password, here a placeholder.
\<close>

definition hashPassword :: "string \<Rightarrow> string" where
  "hashPassword p = ''hash:'' @ rev p"

text \<open>
  Modelled from the spec: \<^verbatim>\<open>User.create(fields)\<close> of the missing
  \<^verbatim>\<open>User\<close> model. It requires an email and a password, refuses an email
  that is taken (the unique index), stores the password hashed and gives the
  new identity the role \<^verbatim>\<open>customer\<close>.
\<close>

definition store_create ::
  "store \<Rightarrow> (string \<times> json option) list \<Rightarrow> error + (doc \<times> store)" where
  "store_create db input =
     (case (map_of input ''email'', map_of input ''password'') of
        (Some (Some (JStr email)), Some (Some (JStr password))) \<Rightarrow>
          if find (\<lambda>d. map_of d ''email'' = Some (JStr email)) db \<noteq> None
          then Inl (Error ''E11000 duplicate key error'')
          else
            (let d = [(''_id'', JStr (''u'' @ show_nat (Suc (length db)))),
                      (''email'', JStr email),
                      (''password'', JStr (hashPassword password)),
                      (''role'', JStr ''customer'')]
                     @ List.map_filter (\<lambda>k. case map_of input k of
                                               Some (Some v) \<Rightarrow> Some (k, v)
                                             | _ \<Rightarrow> None)
                         [''firstName'', ''lastName'', ''phone'']
             in Inr (d, db @ [d]))
      | _ \<Rightarrow> Inl (Error ''User validation failed''))"

text \<open>
  Modelled from the spec: \<^verbatim>\<open>user.comparePassword(candidate)\<close> of the missing
  \<^verbatim>\<open>User\<close> model; it throws when the document was read without its
  password or the candidate is not a string.
\<close>

definition store_comparePassword :: "doc \<Rightarrow> json option \<Rightarrow> error + bool" where
  "store_comparePassword d candidate =
     (case (map_of d ''password'', candidate) of
        (Some (JStr h), Some (JStr p)) \<Rightarrow> Inr (h = hashPassword p)
      | _ \<Rightarrow> Inl (Error ''Illegal arguments''))"

subsection \<open>Tokens\<close>

text \<open>
  A stand-in for the external library \<^verbatim>\<open>jsonwebtoken\<close>, following its
  documentation and the spec's token service:
  \<^verbatim>\<open>sign\<close> adds \<^verbatim>\<open>iat\<close> and, from \<^verbatim>\<open>expiresIn\<close>,
  \<^verbatim>\<open>exp\<close> to the payload and signs the result; \<^verbatim>\<open>verify\<close> throws
  on a malformed token, on a signature made with another secret and from the
  second \<^verbatim>\<open>exp\<close> on, and otherwise returns the payload. A token is written
  \<^verbatim>\<open>id.iat.exp.signature\<close>; only payloads whose \<^verbatim>\<open>id\<close> is a string
  without a dot are supported, and the signature is a placeholder.
\<close>

definition timespan :: "string \<Rightarrow> nat option" where
  "timespan s =
     (if s = [] then None
      else
        (case (parse_nat (butlast s),
               map_of [(CHR ''s'', 1), (CHR ''m'', 60), (CHR ''h'', 3600), (CHR ''d'', 86400)]
                 (last s)) of
           (Some n, Some unit) \<Rightarrow> Some (n * unit)
         | _ \<Rightarrow> None))"

definition signature :: "string \<Rightarrow> string \<Rightarrow> string" where
  "signature secret content = rev (filter (\<lambda>c. c \<noteq> CHR ''.'') (secret @ content))"

definition token_sign ::
  "json \<Rightarrow> string option \<Rightarrow> string option \<Rightarrow> nat \<Rightarrow> error + string" where
  "token_sign payload secret expiresIn now =
     (case secret of
        None \<Rightarrow> Inl (Error ''secretOrPrivateKey must have a value'')
      | Some k \<Rightarrow>
          (case expiresIn of
             None \<Rightarrow> Inl (Error ''expiresIn should be a number of seconds or string representing a timespan'')
           | Some span \<Rightarrow>
               (case timespan span of
                  None \<Rightarrow> Inl (Error ''expiresIn should be a number of seconds or string representing a timespan'')
                | Some d \<Rightarrow>
                    (case payload of
                       JObj [(''id'', JStr i)] \<Rightarrow>
                         if CHR ''.'' \<in> set i then Inl (Error ''unsupported payload'')
                         else
                           (let content = i @ ''.'' @ show_nat now @ ''.'' @ show_nat (now + d)
                            in Inr (content @ ''.'' @ signature k content))
                     | _ \<Rightarrow> Inl (Error ''unsupported payload'')))))"

definition token_verify :: "string \<Rightarrow> string option \<Rightarrow> nat \<Rightarrow> error + json" where
  "token_verify token secret now =
     (case secret of
        None \<Rightarrow> Inl (Error ''secret or public key must be provided'')
      | Some k \<Rightarrow>
          (case split (CHR ''.'') token of
             [i, a, x, sig] \<Rightarrow>
               (case (parse_nat a, parse_nat x) of
                  (Some iat, Some exp) \<Rightarrow>
                    if sig \<noteq> signature k (i @ ''.'' @ a @ ''.'' @ x)
                    then Inl (Error ''invalid signature'')
                    else if now \<ge> exp then Inl (Error ''jwt expired'')
                    else Inr (JObj [(''id'', JStr i), (''iat'', JNum (int iat)), (''exp'', JNum (int exp))])
                | _ \<Rightarrow> Inl (Error ''invalid token''))
           | _ \<Rightarrow> Inl (Error ''jwt malformed'')))"

definition reference :: "store collab" where
  "reference =
     \<lparr>User_findOne = store_findOne,
      User_findById = store_findById,
      User_create = store_create,
      comparePassword = store_comparePassword,
      jwt_sign = token_sign,
      jwt_verify = token_verify\<rparr>"

text \<open>The configuration of the repository's example environment file.\<close>

definition exampleEnv :: env where
  "exampleEnv = \<lparr>JWT_SECRET = Some ''your_jwt_secret_here'', JWT_EXPIRES_IN = Some ''7d''\<rparr>"

section \<open>A scenario\<close>

text \<open>
  Alice registers with the password \<^verbatim>\<open>abc\<close> at second 100 and logs in at
  second 200. The requests and the store of this scenario are used to run the
  routes on the reference collaborators.
\<close>

definition jsonRequest :: "json \<Rightarrow> request" where
  "jsonRequest b = \<lparr>authorization = None, reqBody = b, user = None\<rparr>"

definition bearer :: "string \<Rightarrow> request" where
  "bearer token = \<lparr>authorization = Some (''Bearer '' @ token), reqBody = JObj [], user = None\<rparr>"

definition aliceRegistration :: request where
  "aliceRegistration = jsonRequest (JObj
     [(''email'', JStr ''alice@example.in''),
      (''password'', JStr ''abc''),
      (''firstName'', JStr ''Alice'')])"

definition aliceDoc :: doc where
  "aliceDoc =
     [(''_id'', JStr ''u1''),
      (''email'', JStr ''alice@example.in''),
      (''password'', JStr ''hash:cba''),
      (''role'', JStr ''customer''),
      (''firstName'', JStr ''Alice'')]"

definition aliceLogin :: request where
  "aliceLogin = jsonRequest (JObj
     [(''email'', JStr ''alice@example.in''), (''password'', JStr ''abc'')])"

definition aliceWrongPassword :: request where
  "aliceWrongPassword = jsonRequest (JObj
     [(''email'', JStr ''alice@example.in''), (''password'', JStr ''abd'')])"

definition strangerLogin :: request where
  "strangerLogin = jsonRequest (JObj
     [(''email'', JStr ''nobody@example.in''), (''password'', JStr ''abc'')])"

text \<open>
  Two login requests whose password is the JSON number 1: one with Alice's
  email, one with an email that no identity has.
\<close>

definition aliceNumberPassword :: request where
  "aliceNumberPassword = jsonRequest (JObj
     [(''email'', JStr ''alice@example.in''), (''password'', JNum 1)])"

definition strangerNumberPassword :: request where
  "strangerNumberPassword = jsonRequest (JObj
     [(''email'', JStr ''nobody@example.in''), (''password'', JNum 1)])"

text \<open>The token that Alice's login at second 200 returns.\<close>

definition aliceToken :: string where
  "aliceToken = ''u1.200.605000.0005060021uereh_terces_twj_ruoy''"

text \<open>A token for Alice signed with a guessed secret, and a token sent without a header.\<close>

definition forgedToken :: string where
  "forgedToken = ''u1.200.605000.0005060021usseug''"

definition noHeader :: request where
  "noHeader = jsonRequest (JObj [])"

definition rootDoc :: doc where
  "rootDoc =
     [(''_id'', JStr ''u2''),
      (''email'', JStr ''root@example.in''),
      (''password'', JStr ''hash:!1tooR''),
      (''role'', JStr ''admin'')]"

definition rootLogin :: request where
  "rootLogin = jsonRequest (JObj
     [(''email'', JStr ''root@example.in''), (''password'', JStr ''Root1!'')])"

text \<open>A store that cannot be reached: every lookup throws.\<close>

definition unreachable :: "store collab" where
  "unreachable = reference
     \<lparr>User_findOne := \<lambda>db q sel. Inl (Error ''connect ECONNREFUSED 127.0.0.1:27017''),
      User_findById := \<lambda>db i sel. Inl (Error ''connect ECONNREFUSED 127.0.0.1:27017'')\<rparr>"

lemmas scenario_defs =
  jsonRequest_def bearer_def aliceRegistration_def aliceDoc_def aliceLogin_def
  aliceWrongPassword_def strangerLogin_def aliceToken_def rootDoc_def rootLogin_def
  exampleEnv_def forgedToken_def noHeader_def aliceNumberPassword_def
  strangerNumberPassword_def

lemmas reference_defs =
  reference_def unreachable_def store_findOne_def store_findById_def store_create_def
  store_comparePassword_def matches_def select_def hashPassword_def
  token_sign_def token_verify_def timespan_def signature_def parse_nat_def digit_val_def

lemmas response_defs =
  json_response_def errorBody_def successMessage_def tokenBody_def profileBody_def
  userSummary_def userProfile_def obj_def tokenPayload_def
  signToken_def unauthorized_def bearerToken_def

section \<open>Shared lemmas\<close>

lemma protect_Respond: "protect c e db now req = Respond r \<Longrightarrow> r = unauthorized"
  by (auto simp: protect_def split: option.splits if_splits sum.splits)

lemma protect_Next:
  assumes "bearerToken req = Some token" and "token \<noteq> []"
    and "jwt_verify c token (JWT_SECRET e) now = Inr decoded"
    and "member decoded ''id'' = Inr i"
    and "User_findById c db i (Some ''-password'') = Inr u"
  shows "protect c e db now req = Next (req\<lparr>user := u\<rparr>)"
  using assms by (simp add: protect_def)

lemma map_filter_names:
  "set (map fst (List.map_filter (\<lambda>(k, v). map_option (Pair k) v) kvs)) \<subseteq> set (map fst kvs)"
  by (induction kvs) (auto split: option.splits)

lemma obj_names: "\<exists>xs. obj kvs = JObj xs \<and> set (map fst xs) \<subseteq> set (map fst kvs)"
  using map_filter_names [of kvs] by (simp add: obj_def)

lemma register_201:
  "status (fst (register c e db now req)) = 201 \<Longrightarrow>
   \<exists>u token. signToken c e now u = Inr token \<and>
     fst (register c e db now req) = json_response 201 (tokenBody token u)"
  by (auto simp: register_def json_response_def split: sum.splits option.splits prod.splits)

lemma login_200:
  "status (fst (login c e db now req)) = 200 \<Longrightarrow>
   \<exists>u token. signToken c e now u = Inr token \<and>
     fst (login c e db now req) = json_response 200 (tokenBody token u)"
  by (auto simp: login_def json_response_def
      split: sum.splits option.splits if_splits bool.splits)

lemma adminLogin_200:
  "status (fst (adminLogin c e db now req)) = 200 \<Longrightarrow>
   \<exists>u token. signToken c e now u = Inr token \<and>
     fst (adminLogin c e db now req) = json_response 200 (tokenBody token u)"
  by (auto simp: adminLogin_def json_response_def
      split: sum.splits option.splits if_splits bool.splits)

lemma me_route_200:
  "status (fst (me_route c e db now req)) = 200 \<Longrightarrow>
   \<exists>u. fst (me_route c e db now req) = json_response 200 (profileBody u)"
  by (auto simp: me_route_def me_def json_response_def unauthorized_def
      dest!: protect_Respond split: sum.splits option.splits middleware.splits)

text \<open>The reference store and tokens on the scenario.\<close>

lemma alice_token_valid:
  "token_verify aliceToken (Some ''your_jwt_secret_here'') 400 =
     Inr (JObj [(''id'', JStr ''u1''), (''iat'', JNum 200), (''exp'', JNum 605000)])"
  by (simp add: scenario_defs reference_defs)

lemma alice_token_expired:
  "token_verify aliceToken (Some ''your_jwt_secret_here'') 700000 = Inl (Error ''jwt expired'')"
  by (simp add: scenario_defs reference_defs)

lemma forged_token_rejected:
  "token_verify forgedToken (Some ''your_jwt_secret_here'') 400 = Inl (Error ''invalid signature'')"
  by (simp add: scenario_defs reference_defs)

lemma garbage_token_rejected:
  "token_verify ''garbage'' (Some ''your_jwt_secret_here'') 400 = Inl (Error ''jwt malformed'')"
  by (simp add: scenario_defs reference_defs)

lemma bearerToken_bearer: "CHR '' '' \<notin> set token \<Longrightarrow> bearerToken (bearer token) = Some token"
proof -
  assume "CHR '' '' \<notin> set token"
  then have "split (CHR '' '') token = [token]"
    by (induction token) auto
  then show ?thesis
    by (simp add: bearerToken_def bearer_def)
qed

lemma reference_admin_lookup_sound: "admin_lookup_sound reference db"
proof -
  have "map_of u ''role'' = Some (JStr ''admin'')"
    if "store_findOne db [(''email'', email), (''role'', Some (JStr ''admin''))]
          (Some ''+password'') = Inr (Some u)" for email u
  proof -
    from that obtain d
      where d: "find (\<lambda>d. matches d [(''email'', email), (''role'', Some (JStr ''admin''))]) db = Some d"
        and u: "u = d"
      by (auto simp: store_findOne_def select_def)
    from d have "matches d [(''email'', email), (''role'', Some (JStr ''admin''))]"
      by (auto simp: find_Some_iff)
    then show ?thesis
      using u by (simp add: matches_def)
  qed
  then show ?thesis
    by (simp add: admin_lookup_sound_def reference_def)
qed

text \<open>
  In the reference store, when every identity with a given email has a role
  other than \<^verbatim>\<open>admin\<close>, the lookup of admin login finds nothing.
\<close>

lemma reference_non_admin_lookup:
  assumes "\<forall>d \<in> set db. map_of d ''email'' = Some (JStr email) \<longrightarrow>
                         map_of d ''role'' \<noteq> Some (JStr ''admin'')"
  shows "store_findOne db [(''email'', Some (JStr email)), (''role'', Some (JStr ''admin''))] sel =
           Inr None"
proof -
  have "find (\<lambda>d. matches d [(''email'', Some (JStr email)), (''role'', Some (JStr ''admin''))]) db
          = None"
    using assms by (auto simp: find_None_iff matches_def)
  then show ?thesis
    by (simp add: store_findOne_def)
qed

section \<open>Rejections by \<^verbatim>\<open>protect\<close>\<close>

text \<open>
  Claim C4. Requests that \<^verbatim>\<open>protect\<close> rejects for different reasons get
  the same response. A request without a bearer token is rejected; a request
  whose token \<^verbatim>\<open>jwt.verify\<close> refuses, whatever the error thrown
  (malformed token, bad signature, expired token), is rejected; and any two
  rejections, even on different stores, at different times and under different
  configurations, are the same response: status 401 with the one message
  \<^verbatim>\<open>Not authorized to access this route\<close>.
\<close>

theorem protect_rejections_identical:
  "(bearerToken req0 = None \<longrightarrow> protect c e db now req0 = Respond unauthorized) \<and>
   (bearerToken req1 = Some token \<and> jwt_verify c token (JWT_SECRET e) now = Inl err
      \<longrightarrow> protect c e db now req1 = Respond unauthorized) \<and>
   (protect c e db now req2 = Respond r \<and> protect c' e' db' now' req3 = Respond r'
      \<longrightarrow> r = r' \<and> status r = 401 \<and>
          body r = JObj [(''status'', JStr ''error''),
                         (''message'', JStr ''Not authorized to access this route'')])"
proof (intro conjI impI)
  assume "bearerToken req0 = None"
  then show "protect c e db now req0 = Respond unauthorized"
    by (simp add: protect_def)
next
  assume "bearerToken req1 = Some token \<and> jwt_verify c token (JWT_SECRET e) now = Inl err"
  then show "protect c e db now req1 = Respond unauthorized"
    by (simp add: protect_def)
next
  assume "protect c e db now req2 = Respond r \<and> protect c' e' db' now' req3 = Respond r'"
  then have "r = unauthorized" and "r' = unauthorized"
    by (auto dest: protect_Respond)
  then show "r = r'" and "status r = 401"
    and "body r = JObj [(''status'', JStr ''error''),
                        (''message'', JStr ''Not authorized to access this route'')]"
    by (simp_all add: unauthorized_def json_response_def errorBody_def)
qed

text \<open>
  On the scenario: no header, Alice's token after its expiry, a token that is
  not a token, and a token signed with a guessed secret.
\<close>

theorem protect_rejections_identical_witness:
  "bearerToken noHeader = None \<and>
   protect reference exampleEnv [aliceDoc] 700000 noHeader = Respond unauthorized \<and>
   bearerToken (bearer aliceToken) = Some aliceToken \<and>
   jwt_verify reference aliceToken (JWT_SECRET exampleEnv) 700000 = Inl (Error ''jwt expired'') \<and>
   protect reference exampleEnv [aliceDoc] 700000 (bearer aliceToken) = Respond unauthorized \<and>
   protect reference exampleEnv [aliceDoc] 400 (bearer ''garbage'') = Respond unauthorized \<and>
   protect reference exampleEnv [] 400 (bearer forgedToken) = Respond unauthorized \<and>
   status unauthorized = 401"
proof -
  have h0: "bearerToken noHeader = None"
    by (simp add: bearerToken_def noHeader_def jsonRequest_def)
  have h1: "bearerToken (bearer aliceToken) = Some aliceToken"
    by (rule bearerToken_bearer) (simp add: aliceToken_def)
  have h2: "jwt_verify reference aliceToken (JWT_SECRET exampleEnv) 700000 = Inl (Error ''jwt expired'')"
    using alice_token_expired by (simp add: reference_def exampleEnv_def)
  have g: "bearerToken (bearer ''garbage'') = Some ''garbage''"
    by (rule bearerToken_bearer) simp
  have f: "bearerToken (bearer forgedToken) = Some forgedToken"
    by (rule bearerToken_bearer) (simp add: forgedToken_def)
  have h3: "protect reference exampleEnv [aliceDoc] 400 (bearer ''garbage'') = Respond unauthorized"
    using g garbage_token_rejected by (simp add: protect_def reference_def exampleEnv_def)
  have h4: "protect reference exampleEnv [] 400 (bearer forgedToken) = Respond unauthorized"
    using f forged_token_rejected
    by (simp add: protect_def reference_def exampleEnv_def forgedToken_def)
  show ?thesis
    using h0 h1 h2 h3 h4
      protect_rejections_identical [where ?req0.0 = noHeader and c = reference
        and e = exampleEnv and db = "[aliceDoc]" and now = 700000
        and ?req1.0 = "bearer aliceToken" and token = aliceToken and err = "Error ''jwt expired''"
        and ?req2.0 = "bearer aliceToken" and r = unauthorized
        and c' = reference and e' = exampleEnv and db' = "[]" and now' = 400
        and ?req3.0 = "bearer forgedToken" and r' = unauthorized]
    by simp
qed

section \<open>Registration with an email that is taken\<close>

text \<open>
  Claim C6. Register keeps the email unique: when the lookup
  \<^verbatim>\<open>User.findOne({ email })\<close> finds an identity with the email of the
  request, register answers with the client error 400
  \<^verbatim>\<open>User already exists\<close>, \<^verbatim>\<open>User.create\<close> is not called, and the
  store after the request is the store before it.
\<close>

theorem register_existing_email:
  assumes "properties (reqBody req) = Inr b"
    and "User_findOne c db [(''email'', map_of b ''email'')] None = Inr (Some u)"
  shows "register c e db now req = (json_response 400 (errorBody ''User already exists''), db)"
  using assms by (simp add: register_def)

text \<open>Alice registers a second time.\<close>

theorem register_existing_email_witness:
  "properties (reqBody aliceRegistration) =
     Inr [(''email'', JStr ''alice@example.in''), (''password'', JStr ''abc''),
          (''firstName'', JStr ''Alice'')] \<and>
   User_findOne reference [aliceDoc] [(''email'', Some (JStr ''alice@example.in''))] None =
     Inr (Some [(''_id'', JStr ''u1''), (''email'', JStr ''alice@example.in''),
                (''role'', JStr ''customer''), (''firstName'', JStr ''Alice'')]) \<and>
   register reference exampleEnv [aliceDoc] 500 aliceRegistration =
     (json_response 400 (errorBody ''User already exists''), [aliceDoc])"
proof -
  have p: "properties (reqBody aliceRegistration) =
     Inr [(''email'', JStr ''alice@example.in''), (''password'', JStr ''abc''),
          (''firstName'', JStr ''Alice'')]"
    by (simp add: aliceRegistration_def jsonRequest_def)
  have f: "User_findOne reference [aliceDoc] [(''email'', Some (JStr ''alice@example.in''))] None =
     Inr (Some [(''_id'', JStr ''u1''), (''email'', JStr ''alice@example.in''),
                (''role'', JStr ''customer''), (''firstName'', JStr ''Alice'')])"
    by (simp add: reference_def store_findOne_def matches_def select_def aliceDoc_def)
  show ?thesis
    using p f register_existing_email [of aliceRegistration _ reference "[aliceDoc]" _ exampleEnv 500]
    by simp
qed

section \<open>Login failures\<close>

text \<open>
  The handler joins two causes in one test,
  \<^verbatim>\<open>!user || !(await user.comparePassword(password))\<close>: when the lookup
  finds nobody, and when it finds an identity and \<^verbatim>\<open>comparePassword\<close>
  answers \<^verbatim>\<open>false\<close>, the response is the same, status 401 with the message
  \<^verbatim>\<open>Invalid credentials\<close>, and the store is unchanged.
\<close>

lemma login_failures_identical:
  assumes "properties (reqBody r1) = Inr b1"
    and "\<not> falsy (map_of b1 ''email'')" and "\<not> falsy (map_of b1 ''password'')"
    and "User_findOne c db [(''email'', map_of b1 ''email'')] (Some ''+password'') = Inr None"
    and "properties (reqBody r2) = Inr b2"
    and "\<not> falsy (map_of b2 ''email'')" and "\<not> falsy (map_of b2 ''password'')"
    and "User_findOne c db [(''email'', map_of b2 ''email'')] (Some ''+password'') = Inr (Some u)"
    and "comparePassword c u (map_of b2 ''password'') = Inr False"
  shows "login c e db now r1 = login c e db now' r2 \<and>
         login c e db now r1 = (json_response 401 (errorBody ''Invalid credentials''), db)"
  using assms by (simp add: login_def)

text \<open>A stranger, and Alice with the password \<^verbatim>\<open>abd\<close>.\<close>

lemma login_failures_identical_witness:
  "User_findOne reference [aliceDoc] [(''email'', Some (JStr ''nobody@example.in''))]
     (Some ''+password'') = Inr None \<and>
   User_findOne reference [aliceDoc] [(''email'', Some (JStr ''alice@example.in''))]
     (Some ''+password'') = Inr (Some aliceDoc) \<and>
   comparePassword reference aliceDoc (Some (JStr ''abd'')) = Inr False \<and>
   login reference exampleEnv [aliceDoc] 200 strangerLogin =
     login reference exampleEnv [aliceDoc] 250 aliceWrongPassword \<and>
   login reference exampleEnv [aliceDoc] 200 strangerLogin =
     (json_response 401 (errorBody ''Invalid credentials''), [aliceDoc])"
proof -
  have p1: "properties (reqBody strangerLogin) =
     Inr [(''email'', JStr ''nobody@example.in''), (''password'', JStr ''abc'')]"
    by (simp add: strangerLogin_def jsonRequest_def)
  have p2: "properties (reqBody aliceWrongPassword) =
     Inr [(''email'', JStr ''alice@example.in''), (''password'', JStr ''abd'')]"
    by (simp add: aliceWrongPassword_def jsonRequest_def)
  have f1: "User_findOne reference [aliceDoc] [(''email'', Some (JStr ''nobody@example.in''))]
     (Some ''+password'') = Inr None"
    by (simp add: reference_def store_findOne_def matches_def aliceDoc_def)
  have f2: "User_findOne reference [aliceDoc] [(''email'', Some (JStr ''alice@example.in''))]
     (Some ''+password'') = Inr (Some aliceDoc)"
    by (simp add: reference_def store_findOne_def matches_def select_def aliceDoc_def)
  have cp: "comparePassword reference aliceDoc (Some (JStr ''abd'')) = Inr False"
    by (simp add: reference_def store_comparePassword_def hashPassword_def aliceDoc_def)
  have "login reference exampleEnv [aliceDoc] 200 strangerLogin =
          login reference exampleEnv [aliceDoc] 250 aliceWrongPassword \<and>
        login reference exampleEnv [aliceDoc] 200 strangerLogin =
          (json_response 401 (errorBody ''Invalid credentials''), [aliceDoc])"
    by (rule login_failures_identical [OF p1 _ _ _ p2, where u = aliceDoc])
      (simp_all add: f1 f2 cp)
  then show ?thesis
    using f1 f2 cp by blast
qed

text \<open>
  Claim C10 says that a login with an email that matches no identity and a
  login with the email of an identity and a wrong password get the same
  response, so that a caller cannot tell which emails are registered. The code
  misses one case: \<^verbatim>\<open>comparePassword\<close> runs inside the \<^verbatim>\<open>try\<close>,
  and when it throws on the wrong password, the \<^verbatim>\<open>catch\<close> answers 400 with
  the message of the error, while the same password with an unknown email is
  answered 401 \<^verbatim>\<open>Invalid credentials\<close>. The two responses differ, for
  every implementation of the collaborators.
\<close>

theorem login_failure_causes_distinguishable:
  assumes "properties (reqBody r1) = Inr b1"
    and "\<not> falsy (map_of b1 ''email'')" and "\<not> falsy (map_of b1 ''password'')"
    and "User_findOne c db [(''email'', map_of b1 ''email'')] (Some ''+password'') = Inr None"
    and "properties (reqBody r2) = Inr b2"
    and "\<not> falsy (map_of b2 ''email'')" and "\<not> falsy (map_of b2 ''password'')"
    and "User_findOne c db [(''email'', map_of b2 ''email'')] (Some ''+password'') = Inr (Some u)"
    and "comparePassword c u (map_of b2 ''password'') = Inl err"
  shows "login c e db now r1 = (json_response 401 (errorBody ''Invalid credentials''), db) \<and>
         login c e db now' r2 = (json_response 400 (errorBody (message err)), db) \<and>
         login c e db now r1 \<noteq> login c e db now' r2"
proof -
  have unknown: "login c e db now r1 = (json_response 401 (errorBody ''Invalid credentials''), db)"
    using assms by (simp add: login_def)
  have existing: "login c e db now' r2 = (json_response 400 (errorBody (message err)), db)"
    using assms by (simp add: login_def)
  have "json_response 401 (errorBody ''Invalid credentials'') \<noteq>
        json_response 400 (errorBody (message err))"
    by (simp add: json_response_def)
  then show ?thesis
    using unknown existing by simp
qed

text \<open>
  The password is the number 1, with an unknown email and with Alice's email;
  the comparison of a number with the stored hash throws, as that of
  \<^verbatim>\<open>bcrypt\<close> does.
\<close>

theorem login_failure_causes_distinguishable_witness:
  "User_findOne reference [aliceDoc] [(''email'', Some (JStr ''nobody@example.in''))]
     (Some ''+password'') = Inr None \<and>
   User_findOne reference [aliceDoc] [(''email'', Some (JStr ''alice@example.in''))]
     (Some ''+password'') = Inr (Some aliceDoc) \<and>
   comparePassword reference aliceDoc (Some (JNum 1)) = Inl (Error ''Illegal arguments'') \<and>
   login reference exampleEnv [aliceDoc] 200 strangerNumberPassword =
     (json_response 401 (errorBody ''Invalid credentials''), [aliceDoc]) \<and>
   login reference exampleEnv [aliceDoc] 200 aliceNumberPassword =
     (json_response 400 (errorBody ''Illegal arguments''), [aliceDoc]) \<and>
   login reference exampleEnv [aliceDoc] 200 strangerNumberPassword \<noteq>
     login reference exampleEnv [aliceDoc] 200 aliceNumberPassword"
proof -
  have p1: "properties (reqBody strangerNumberPassword) =
     Inr [(''email'', JStr ''nobody@example.in''), (''password'', JNum 1)]"
    by (simp add: strangerNumberPassword_def jsonRequest_def)
  have p2: "properties (reqBody aliceNumberPassword) =
     Inr [(''email'', JStr ''alice@example.in''), (''password'', JNum 1)]"
    by (simp add: aliceNumberPassword_def jsonRequest_def)
  have f1: "User_findOne reference [aliceDoc] [(''email'', Some (JStr ''nobody@example.in''))]
     (Some ''+password'') = Inr None"
    by (simp add: reference_def store_findOne_def matches_def aliceDoc_def)
  have f2: "User_findOne reference [aliceDoc] [(''email'', Some (JStr ''alice@example.in''))]
     (Some ''+password'') = Inr (Some aliceDoc)"
    by (simp add: reference_def store_findOne_def matches_def select_def aliceDoc_def)
  have cp: "comparePassword reference aliceDoc (Some (JNum 1)) = Inl (Error ''Illegal arguments'')"
    by (simp add: reference_def store_comparePassword_def aliceDoc_def)
  have "login reference exampleEnv [aliceDoc] 200 strangerNumberPassword =
          (json_response 401 (errorBody ''Invalid credentials''), [aliceDoc]) \<and>
        login reference exampleEnv [aliceDoc] 200 aliceNumberPassword =
          (json_response 400 (errorBody (message (Error ''Illegal arguments''))), [aliceDoc]) \<and>
        login reference exampleEnv [aliceDoc] 200 strangerNumberPassword \<noteq>
          login reference exampleEnv [aliceDoc] 200 aliceNumberPassword"
    by (rule login_failure_causes_distinguishable [OF p1 _ _ _ p2, where u = aliceDoc])
      (simp_all add: f1 f2 cp)
  moreover have "message (Error ''Illegal arguments'') = ''Illegal arguments''"
    by simp
  ultimately have "login reference exampleEnv [aliceDoc] 200 strangerNumberPassword =
          (json_response 401 (errorBody ''Invalid credentials''), [aliceDoc]) \<and>
        login reference exampleEnv [aliceDoc] 200 aliceNumberPassword =
          (json_response 400 (errorBody ''Illegal arguments''), [aliceDoc]) \<and>
        login reference exampleEnv [aliceDoc] 200 strangerNumberPassword \<noteq>
          login reference exampleEnv [aliceDoc] 200 aliceNumberPassword"
    by metis
  then show ?thesis
    using f1 f2 cp by blast
qed

section \<open>Admin login\<close>

text \<open>
  Claim C9. Admin login authenticates admin identities only. Its lookup is
  \<^verbatim>\<open>User.findOne({ email, role: 'admin' })\<close>: for a request with an email
  and a password, when no identity with that email has the role
  \<^verbatim>\<open>admin\<close>, as for the credentials of an identity of another role, the
  answer is 401 \<^verbatim>\<open>Invalid admin credentials\<close>, it carries no token, and the
  store is unchanged. And whenever admin login answers 200, on a store whose
  lookup respects the role in the filter, the identity in the response has the
  role \<^verbatim>\<open>admin\<close>.
\<close>

theorem adminLogin_only_admins:
  "(properties (reqBody req) = Inr b \<and>
    \<not> falsy (map_of b ''email'') \<and> \<not> falsy (map_of b ''password'') \<and>
    User_findOne c db [(''email'', map_of b ''email''), (''role'', Some (JStr ''admin''))]
       (Some ''+password'') = Inr None
    \<longrightarrow> adminLogin c e db now req =
          (json_response 401 (errorBody ''Invalid admin credentials''), db) \<and>
        member (body (fst (adminLogin c e db now req))) ''token'' = Inr None) \<and>
   (admin_lookup_sound c db' \<and> status (fst (adminLogin c e db' now' req')) = 200
    \<longrightarrow> (\<exists>u token. body (fst (adminLogin c e db' now' req')) = tokenBody token u \<and>
                     map_of u ''role'' = Some (JStr ''admin'')))"
proof (intro conjI impI)
  assume a: "properties (reqBody req) = Inr b \<and>
    \<not> falsy (map_of b ''email'') \<and> \<not> falsy (map_of b ''password'') \<and>
    User_findOne c db [(''email'', map_of b ''email''), (''role'', Some (JStr ''admin''))]
       (Some ''+password'') = Inr None"
  then show r: "adminLogin c e db now req =
          (json_response 401 (errorBody ''Invalid admin credentials''), db)"
    by (simp add: adminLogin_def)
  show "member (body (fst (adminLogin c e db now req))) ''token'' = Inr None"
    by (simp add: r json_response_def errorBody_def)
next
  assume "admin_lookup_sound c db' \<and> status (fst (adminLogin c e db' now' req')) = 200"
  then show "\<exists>u token. body (fst (adminLogin c e db' now' req')) = tokenBody token u \<and>
                     map_of u ''role'' = Some (JStr ''admin'')"
    unfolding adminLogin_def admin_lookup_sound_def
    by (auto simp: json_response_def split: sum.splits if_splits option.splits bool.splits)
qed

text \<open>
  Alice, a customer, sends her own email and password to admin login; the
  administrator of the same store logs in.
\<close>

theorem adminLogin_only_admins_witness:
  "map_of aliceDoc ''role'' = Some (JStr ''customer'') \<and>
   User_findOne reference [aliceDoc, rootDoc] [(''email'', Some (JStr ''alice@example.in''))]
     (Some ''+password'') = Inr (Some aliceDoc) \<and>
   comparePassword reference aliceDoc (Some (JStr ''abc'')) = Inr True \<and>
   User_findOne reference [aliceDoc, rootDoc]
     [(''email'', Some (JStr ''alice@example.in'')), (''role'', Some (JStr ''admin''))]
     (Some ''+password'') = Inr None \<and>
   adminLogin reference exampleEnv [aliceDoc, rootDoc] 400 aliceLogin =
     (json_response 401 (errorBody ''Invalid admin credentials''), [aliceDoc, rootDoc]) \<and>
   admin_lookup_sound reference [aliceDoc, rootDoc] \<and>
   status (fst (adminLogin reference exampleEnv [aliceDoc, rootDoc] 400 rootLogin)) = 200 \<and>
   (\<exists>u token.
      body (fst (adminLogin reference exampleEnv [aliceDoc, rootDoc] 400 rootLogin)) =
        tokenBody token u \<and>
      map_of u ''role'' = Some (JStr ''admin''))"
proof -
  have role: "map_of aliceDoc ''role'' = Some (JStr ''customer'')"
    by (simp add: aliceDoc_def)
  have own: "User_findOne reference [aliceDoc, rootDoc]
      [(''email'', Some (JStr ''alice@example.in''))] (Some ''+password'') = Inr (Some aliceDoc)"
    by (simp add: reference_def store_findOne_def matches_def select_def aliceDoc_def)
  have pw: "comparePassword reference aliceDoc (Some (JStr ''abc'')) = Inr True"
    by (simp add: reference_def store_comparePassword_def hashPassword_def aliceDoc_def)
  have p: "properties (reqBody aliceLogin) =
      Inr [(''email'', JStr ''alice@example.in''), (''password'', JStr ''abc'')]"
    by (simp add: aliceLogin_def jsonRequest_def)
  have none: "User_findOne reference [aliceDoc, rootDoc]
      [(''email'', Some (JStr ''alice@example.in'')), (''role'', Some (JStr ''admin''))]
      (Some ''+password'') = Inr None"
    by (simp add: reference_def store_findOne_def matches_def aliceDoc_def rootDoc_def)
  have ok: "status (fst (adminLogin reference exampleEnv [aliceDoc, rootDoc] 400 rootLogin)) = 200"
    by (simp add: adminLogin_def scenario_defs reference_defs response_defs Let_def)
  note sound = reference_admin_lookup_sound [of "[aliceDoc, rootDoc]"]
  note inst = adminLogin_only_admins [where req = aliceLogin and c = reference
      and db = "[aliceDoc, rootDoc]" and e = exampleEnv and now = 400
      and b = "[(''email'', JStr ''alice@example.in''), (''password'', JStr ''abc'')]"
      and db' = "[aliceDoc, rootDoc]" and now' = 400 and req' = rootLogin]
  have rejected: "adminLogin reference exampleEnv [aliceDoc, rootDoc] 400 aliceLogin =
     (json_response 401 (errorBody ''Invalid admin credentials''), [aliceDoc, rootDoc])"
    using inst p none by simp
  have admin: "\<exists>u token.
      body (fst (adminLogin reference exampleEnv [aliceDoc, rootDoc] 400 rootLogin)) =
        tokenBody token u \<and>
      map_of u ''role'' = Some (JStr ''admin'')"
    using inst sound ok by blast
  show ?thesis
    using role own pw none rejected sound ok admin by blast
qed

section \<open>The password in responses\<close>

text \<open>
  Claim C5. The user object of every successful response of register (201),
  login (200), admin login (200) and the profile route \<^verbatim>\<open>GET /me\<close> (200)
  has no property named \<^verbatim>\<open>password\<close>: each response has a user object
  under \<^verbatim>\<open>data.user\<close>, built from the listed properties of the document
  only, whatever the document holds.
\<close>

theorem responses_omit_password:
  "(status (fst (register c e db1 now1 req1)) = 201
      \<longrightarrow> omitsPassword (body (fst (register c e db1 now1 req1)))) \<and>
   (status (fst (login c e db2 now2 req2)) = 200
      \<longrightarrow> omitsPassword (body (fst (login c e db2 now2 req2)))) \<and>
   (status (fst (adminLogin c e db3 now3 req3)) = 200
      \<longrightarrow> omitsPassword (body (fst (adminLogin c e db3 now3 req3)))) \<and>
   (status (fst (me_route c e db4 now4 req4)) = 200
      \<longrightarrow> omitsPassword (body (fst (me_route c e db4 now4 req4))))"
proof -
  have token: "omitsPassword (tokenBody token u)" for token u
  proof -
    obtain xs where xs: "userSummary u = JObj xs"
      and sub: "set (map fst xs) \<subseteq> {''id'', ''email'', ''firstName'', ''lastName'', ''role''}"
      using obj_names [of "[(''id'', map_of u ''_id''), (''email'', map_of u ''email''),
        (''firstName'', map_of u ''firstName''), (''lastName'', map_of u ''lastName''),
        (''role'', map_of u ''role'')]"]
      by (auto simp: userSummary_def)
    have "''password'' \<notin> set (map fst xs)"
      using sub by auto
    then show ?thesis
      by (simp add: omitsPassword_def userObject_def tokenBody_def xs)
  qed
  have profile: "omitsPassword (profileBody u)" for u
  proof -
    obtain xs where xs: "userProfile u = JObj xs"
      and sub: "set (map fst xs) \<subseteq> {''id'', ''email'', ''firstName'', ''lastName'', ''role'',
          ''phone'', ''address'', ''languagePreference'', ''createdAt'', ''updatedAt''}"
      using obj_names [of "[(''id'', map_of u ''_id''), (''email'', map_of u ''email''),
        (''firstName'', map_of u ''firstName''), (''lastName'', map_of u ''lastName''),
        (''role'', map_of u ''role''), (''phone'', map_of u ''phone''),
        (''address'', map_of u ''address''),
        (''languagePreference'', map_of u ''languagePreference''),
        (''createdAt'', map_of u ''createdAt''), (''updatedAt'', map_of u ''updatedAt'')]"]
      by (auto simp: userProfile_def)
    have "''password'' \<notin> set (map fst xs)"
      using sub by auto
    then show ?thesis
      by (simp add: omitsPassword_def userObject_def profileBody_def xs)
  qed
  show ?thesis
  proof (intro conjI impI)
    assume "status (fst (register c e db1 now1 req1)) = 201"
    then show "omitsPassword (body (fst (register c e db1 now1 req1)))"
      using token by (auto dest!: register_201 simp: json_response_def)
  next
    assume "status (fst (login c e db2 now2 req2)) = 200"
    then show "omitsPassword (body (fst (login c e db2 now2 req2)))"
      using token by (auto dest!: login_200 simp: json_response_def)
  next
    assume "status (fst (adminLogin c e db3 now3 req3)) = 200"
    then show "omitsPassword (body (fst (adminLogin c e db3 now3 req3)))"
      using token by (auto dest!: adminLogin_200 simp: json_response_def)
  next
    assume "status (fst (me_route c e db4 now4 req4)) = 200"
    then show "omitsPassword (body (fst (me_route c e db4 now4 req4)))"
      using profile by (auto dest!: me_route_200 simp: json_response_def)
  qed
qed

text \<open>
  Alice registers, logs in and reads her profile, the administrator logs in;
  the stored documents hold the password hash and the four responses do not.
\<close>

theorem responses_omit_password_witness:
  "map_of aliceDoc ''password'' = Some (JStr ''hash:cba'') \<and>
   status (fst (register reference exampleEnv [] 100 aliceRegistration)) = 201 \<and>
   omitsPassword (body (fst (register reference exampleEnv [] 100 aliceRegistration))) \<and>
   status (fst (login reference exampleEnv [aliceDoc] 200 aliceLogin)) = 200 \<and>
   omitsPassword (body (fst (login reference exampleEnv [aliceDoc] 200 aliceLogin))) \<and>
   status (fst (adminLogin reference exampleEnv [aliceDoc, rootDoc] 400 rootLogin)) = 200 \<and>
   omitsPassword (body (fst (adminLogin reference exampleEnv [aliceDoc, rootDoc] 400 rootLogin))) \<and>
   status (fst (me_route reference exampleEnv [aliceDoc] 400 (bearer aliceToken))) = 200 \<and>
   omitsPassword (body (fst (me_route reference exampleEnv [aliceDoc] 400 (bearer aliceToken))))"
proof -
  have pw: "map_of aliceDoc ''password'' = Some (JStr ''hash:cba'')"
    by (simp add: aliceDoc_def)
  have s1: "status (fst (register reference exampleEnv [] 100 aliceRegistration)) = 201"
    by (simp add: register_def scenario_defs reference_defs response_defs Let_def)
  have s2: "status (fst (login reference exampleEnv [aliceDoc] 200 aliceLogin)) = 200"
    by (simp add: login_def scenario_defs reference_defs response_defs Let_def)
  have s3: "status (fst (adminLogin reference exampleEnv [aliceDoc, rootDoc] 400 rootLogin)) = 200"
    by (simp add: adminLogin_def scenario_defs reference_defs response_defs Let_def)
  have s4: "status (fst (me_route reference exampleEnv [aliceDoc] 400 (bearer aliceToken))) = 200"
    by (simp add: me_route_def me_def protect_def scenario_defs reference_defs response_defs)
  note inst = responses_omit_password [of reference exampleEnv "[]" 100 aliceRegistration
      "[aliceDoc]" 200 aliceLogin "[aliceDoc, rootDoc]" 400 rootLogin
      "[aliceDoc]" 400 "bearer aliceToken"]
  show ?thesis
    using pw s1 s2 s3 s4 inst by blast
qed

section \<open>What an issued token carries\<close>

text \<open>
  Claim C7, which says that every issued token carries the subject's identity
  and role with an expiry, fails on the role: the payload that the routes sign
  is \<^verbatim>\<open>{ id: user._id }\<close>. Alice is a customer; the token of her login,
  once verified, gives her id, the time of issue and the expiry, and no role.
\<close>

theorem issued_token_has_no_role:
  "login reference exampleEnv [aliceDoc] 200 aliceLogin =
     (json_response 200 (tokenBody aliceToken aliceDoc), [aliceDoc]) \<and>
   map_of aliceDoc ''role'' = Some (JStr ''customer'') \<and>
   tokenPayload aliceDoc = JObj [(''id'', JStr ''u1'')] \<and>
   jwt_verify reference aliceToken (JWT_SECRET exampleEnv) 400 =
     Inr (JObj [(''id'', JStr ''u1''), (''iat'', JNum 200), (''exp'', JNum 605000)]) \<and>
   member (JObj [(''id'', JStr ''u1''), (''iat'', JNum 200), (''exp'', JNum 605000)]) ''role'' =
     Inr None"
proof -
  have "login reference exampleEnv [aliceDoc] 200 aliceLogin =
     (json_response 200 (tokenBody aliceToken aliceDoc), [aliceDoc])"
    by (simp add: login_def scenario_defs reference_defs response_defs Let_def)
  moreover have "map_of aliceDoc ''role'' = Some (JStr ''customer'')"
    by (simp add: aliceDoc_def)
  moreover have "tokenPayload aliceDoc = JObj [(''id'', JStr ''u1'')]"
    by (simp add: tokenPayload_def obj_def aliceDoc_def)
  moreover have "jwt_verify reference aliceToken (JWT_SECRET exampleEnv) 400 =
     Inr (JObj [(''id'', JStr ''u1''), (''iat'', JNum 200), (''exp'', JNum 605000)])"
    using alice_token_valid by (simp add: reference_def exampleEnv_def)
  ultimately show ?thesis
    by simp
qed

text \<open>
  Claim C7 as amended. Every token issued by register, login or admin login is
  the result of \<^verbatim>\<open>jwt.sign\<close> on the payload \<^verbatim>\<open>{ id: user._id }\<close>, the
  id of the user shown in the response and nothing else, with the configured
  secret and with \<^verbatim>\<open>expiresIn\<close> set to the configured
  \<^verbatim>\<open>JWT_EXPIRES_IN\<close>.
\<close>

theorem issued_token_payload:
  "(status (fst (register c e db1 now1 req1)) = 201
      \<longrightarrow> (\<exists>u token.
             jwt_sign c (obj [(''id'', map_of u ''_id'')]) (JWT_SECRET e) (JWT_EXPIRES_IN e) now1 =
               Inr token \<and>
             body (fst (register c e db1 now1 req1)) = tokenBody token u)) \<and>
   (status (fst (login c e db2 now2 req2)) = 200
      \<longrightarrow> (\<exists>u token.
             jwt_sign c (obj [(''id'', map_of u ''_id'')]) (JWT_SECRET e) (JWT_EXPIRES_IN e) now2 =
               Inr token \<and>
             body (fst (login c e db2 now2 req2)) = tokenBody token u)) \<and>
   (status (fst (adminLogin c e db3 now3 req3)) = 200
      \<longrightarrow> (\<exists>u token.
             jwt_sign c (obj [(''id'', map_of u ''_id'')]) (JWT_SECRET e) (JWT_EXPIRES_IN e) now3 =
               Inr token \<and>
             body (fst (adminLogin c e db3 now3 req3)) = tokenBody token u))"
proof (intro conjI impI)
  assume a: "status (fst (register c e db1 now1 req1)) = 201"
  from register_201 [OF a] obtain u token
    where s: "signToken c e now1 u = Inr token"
      and r: "fst (register c e db1 now1 req1) = json_response 201 (tokenBody token u)"
    by blast
  from s have "jwt_sign c (obj [(''id'', map_of u ''_id'')]) (JWT_SECRET e) (JWT_EXPIRES_IN e) now1 =
      Inr token"
    by (simp add: signToken_def tokenPayload_def)
  moreover from r have "body (fst (register c e db1 now1 req1)) = tokenBody token u"
    by (simp add: json_response_def)
  ultimately show "\<exists>u token.
      jwt_sign c (obj [(''id'', map_of u ''_id'')]) (JWT_SECRET e) (JWT_EXPIRES_IN e) now1 =
        Inr token \<and>
      body (fst (register c e db1 now1 req1)) = tokenBody token u"
    by blast
next
  assume a: "status (fst (login c e db2 now2 req2)) = 200"
  from login_200 [OF a] obtain u token
    where s: "signToken c e now2 u = Inr token"
      and r: "fst (login c e db2 now2 req2) = json_response 200 (tokenBody token u)"
    by blast
  from s have "jwt_sign c (obj [(''id'', map_of u ''_id'')]) (JWT_SECRET e) (JWT_EXPIRES_IN e) now2 =
      Inr token"
    by (simp add: signToken_def tokenPayload_def)
  moreover from r have "body (fst (login c e db2 now2 req2)) = tokenBody token u"
    by (simp add: json_response_def)
  ultimately show "\<exists>u token.
      jwt_sign c (obj [(''id'', map_of u ''_id'')]) (JWT_SECRET e) (JWT_EXPIRES_IN e) now2 =
        Inr token \<and>
      body (fst (login c e db2 now2 req2)) = tokenBody token u"
    by blast
next
  assume a: "status (fst (adminLogin c e db3 now3 req3)) = 200"
  from adminLogin_200 [OF a] obtain u token
    where s: "signToken c e now3 u = Inr token"
      and r: "fst (adminLogin c e db3 now3 req3) = json_response 200 (tokenBody token u)"
    by blast
  from s have "jwt_sign c (obj [(''id'', map_of u ''_id'')]) (JWT_SECRET e) (JWT_EXPIRES_IN e) now3 =
      Inr token"
    by (simp add: signToken_def tokenPayload_def)
  moreover from r have "body (fst (adminLogin c e db3 now3 req3)) = tokenBody token u"
    by (simp add: json_response_def)
  ultimately show "\<exists>u token.
      jwt_sign c (obj [(''id'', map_of u ''_id'')]) (JWT_SECRET e) (JWT_EXPIRES_IN e) now3 =
        Inr token \<and>
      body (fst (adminLogin c e db3 now3 req3)) = tokenBody token u"
    by blast
qed

theorem issued_token_payload_witness:
  "status (fst (register reference exampleEnv [] 100 aliceRegistration)) = 201 \<and>
   status (fst (login reference exampleEnv [aliceDoc] 200 aliceLogin)) = 200 \<and>
   status (fst (adminLogin reference exampleEnv [aliceDoc, rootDoc] 400 rootLogin)) = 200 \<and>
   (\<exists>u token.
      jwt_sign reference (obj [(''id'', map_of u ''_id'')]) (JWT_SECRET exampleEnv)
        (JWT_EXPIRES_IN exampleEnv) 200 = Inr token \<and>
      body (fst (login reference exampleEnv [aliceDoc] 200 aliceLogin)) = tokenBody token u)"
proof -
  have s1: "status (fst (register reference exampleEnv [] 100 aliceRegistration)) = 201"
    by (simp add: register_def scenario_defs reference_defs response_defs Let_def)
  have s2: "status (fst (login reference exampleEnv [aliceDoc] 200 aliceLogin)) = 200"
    by (simp add: login_def scenario_defs reference_defs response_defs Let_def)
  have s3: "status (fst (adminLogin reference exampleEnv [aliceDoc, rootDoc] 400 rootLogin)) = 200"
    by (simp add: adminLogin_def scenario_defs reference_defs response_defs Let_def)
  note inst = issued_token_payload [of reference exampleEnv "[]" 100 aliceRegistration
      "[aliceDoc]" 200 aliceLogin "[aliceDoc, rootDoc]" 400 rootLogin]
  show ?thesis
    using s1 s2 s3 inst by blast
qed

section \<open>Logout\<close>

text \<open>
  Claim C1, which says that a token is rejected once logout has been called
  with it, fails: there is no revocation set. Alice logs in at second 200 and
  gets her token; she logs out with it at second 300; at second 400 the token
  still verifies and \<^verbatim>\<open>protect\<close> lets the request through as Alice.
\<close>

theorem token_accepted_after_logout:
  "login reference exampleEnv [aliceDoc] 200 aliceLogin =
     (json_response 200 (tokenBody aliceToken aliceDoc), [aliceDoc]) \<and>
   logout_route reference exampleEnv [aliceDoc] 300 (bearer aliceToken) =
     (json_response 200 (successMessage ''Logged out successfully''), [aliceDoc]) \<and>
   protect reference exampleEnv [aliceDoc] 400 (bearer aliceToken) =
     Next ((bearer aliceToken)
       \<lparr>user := Some [(''_id'', JStr ''u1''), (''email'', JStr ''alice@example.in''),
                      (''role'', JStr ''customer''), (''firstName'', JStr ''Alice'')]\<rparr>) \<and>
   protect reference exampleEnv [aliceDoc] 400 (bearer aliceToken) \<noteq> Respond unauthorized"
proof -
  have "login reference exampleEnv [aliceDoc] 200 aliceLogin =
     (json_response 200 (tokenBody aliceToken aliceDoc), [aliceDoc])"
    by (simp add: login_def scenario_defs reference_defs response_defs Let_def)
  moreover have "logout_route reference exampleEnv [aliceDoc] 300 (bearer aliceToken) =
     (json_response 200 (successMessage ''Logged out successfully''), [aliceDoc])"
    by (simp add: logout_route_def logout_def protect_def scenario_defs reference_defs
        response_defs)
  moreover have "protect reference exampleEnv [aliceDoc] 400 (bearer aliceToken) =
     Next ((bearer aliceToken)
       \<lparr>user := Some [(''_id'', JStr ''u1''), (''email'', JStr ''alice@example.in''),
                      (''role'', JStr ''customer''), (''firstName'', JStr ''Alice'')]\<rparr>)"
    by (simp add: protect_def scenario_defs reference_defs response_defs)
  ultimately show ?thesis
    by simp
qed

text \<open>
  Claim C1 as amended. Logout revokes nothing: the store after the logout
  route is the store before it, and the routes keep no other state. A later
  request that presents the same token is let through by \<^verbatim>\<open>protect\<close>
  whenever \<^verbatim>\<open>jwt.verify\<close> still accepts the token (signature and expiry)
  and the lookup of its subject returns; the token stops being accepted at its
  expiry only.
\<close>

theorem logout_revokes_nothing:
  "snd (logout_route c e db now req) = db \<and>
   (bearerToken req' = Some token \<and> token \<noteq> [] \<and>
    jwt_verify c token (JWT_SECRET e) now' = Inr decoded \<and>
    member decoded ''id'' = Inr i \<and>
    User_findById c db i (Some ''-password'') = Inr u
    \<longrightarrow> protect c e (snd (logout_route c e db now req)) now' req' = Next (req'\<lparr>user := u\<rparr>))"
proof -
  have unchanged: "snd (logout_route c e db now req) = db"
    by (simp add: logout_route_def logout_def split: middleware.splits)
  show ?thesis
    by (auto simp: unchanged intro: protect_Next)
qed

theorem logout_revokes_nothing_witness:
  "snd (logout_route reference exampleEnv [aliceDoc] 300 (bearer aliceToken)) = [aliceDoc] \<and>
   bearerToken (bearer aliceToken) = Some aliceToken \<and> aliceToken \<noteq> [] \<and>
   jwt_verify reference aliceToken (JWT_SECRET exampleEnv) 400 =
     Inr (JObj [(''id'', JStr ''u1''), (''iat'', JNum 200), (''exp'', JNum 605000)]) \<and>
   User_findById reference [aliceDoc] (Some (JStr ''u1'')) (Some ''-password'') =
     Inr (Some (select None aliceDoc)) \<and>
   protect reference exampleEnv
     (snd (logout_route reference exampleEnv [aliceDoc] 300 (bearer aliceToken))) 400
     (bearer aliceToken) =
     Next ((bearer aliceToken)\<lparr>user := Some (select None aliceDoc)\<rparr>)"
proof -
  have b: "bearerToken (bearer aliceToken) = Some aliceToken"
    by (rule bearerToken_bearer) (simp add: aliceToken_def)
  have n: "aliceToken \<noteq> []"
    by (simp add: aliceToken_def)
  have v: "jwt_verify reference aliceToken (JWT_SECRET exampleEnv) 400 =
     Inr (JObj [(''id'', JStr ''u1''), (''iat'', JNum 200), (''exp'', JNum 605000)])"
    using alice_token_valid by (simp add: reference_def exampleEnv_def)
  have m: "member (JObj [(''id'', JStr ''u1''), (''iat'', JNum 200), (''exp'', JNum 605000)]) ''id'' =
     Inr (Some (JStr ''u1''))"
    by simp
  have f: "User_findById reference [aliceDoc] (Some (JStr ''u1'')) (Some ''-password'') =
     Inr (Some (select None aliceDoc))"
    by (simp add: reference_def store_findById_def select_def aliceDoc_def)
  note inst = logout_revokes_nothing [where c = reference and e = exampleEnv
      and db = "[aliceDoc]" and now = 300 and req = "bearer aliceToken"
      and req' = "bearer aliceToken" and token = aliceToken and now' = 400
      and decoded = "JObj [(''id'', JStr ''u1''), (''iat'', JNum 200), (''exp'', JNum 605000)]"
      and i = "Some (JStr ''u1'')" and u = "Some (select None aliceDoc)"]
  show ?thesis
    using b n v m f inst by blast
qed

section \<open>Registration and the password\<close>

text \<open>
  Claim C2 says that register rejects, as a weak password, a password that is
  shorter than eight characters or lacks a character class, and creates no
  identity. The route has no such check: it hands \<^verbatim>\<open>req.body.password\<close>
  to \<^verbatim>\<open>User.create\<close> as it came. For every implementation of the
  collaborators, when the body is an object, no identity with the email is
  found, \<^verbatim>\<open>User.create\<close> accepts the document and the token is signed,
  register answers 201 and the store is the one \<^verbatim>\<open>User.create\<close> returned,
  whatever the password. Every other answer is a 400 whose message is
  \<^verbatim>\<open>User already exists\<close> or the message of an error thrown by reading the
  body, by the store or by \<^verbatim>\<open>jwt.sign\<close>; none comes from a password
  rule of the route.
\<close>

theorem register_without_password_rule:
  "(properties (reqBody req) = Inr b \<and>
    User_findOne c db [(''email'', map_of b ''email'')] None = Inr None \<and>
    User_create c db
      [(''email'', map_of b ''email''),
       (''password'', map_of b ''password''),
       (''firstName'', map_of b ''firstName''),
       (''lastName'', map_of b ''lastName''),
       (''phone'', map_of b ''phone'')] = Inr (u, db') \<and>
    signToken c e now u = Inr token
    \<longrightarrow> register c e db now req = (json_response 201 (tokenBody token u), db')) \<and>
   (status (fst (register c e db2 now2 req2)) \<noteq> 201
    \<longrightarrow> (\<exists>m. fst (register c e db2 now2 req2) = json_response 400 (errorBody m) \<and>
             (m = ''User already exists'' \<or>
              (\<exists>err. m = message err \<and>
                 (properties (reqBody req2) = Inl err \<or>
                  (\<exists>q. User_findOne c db2 q None = Inl err) \<or>
                  (\<exists>input. User_create c db2 input = Inl err) \<or>
                  (\<exists>u2. signToken c e now2 u2 = Inl err))))))"
proof (intro conjI impI)
  assume "properties (reqBody req) = Inr b \<and>
    User_findOne c db [(''email'', map_of b ''email'')] None = Inr None \<and>
    User_create c db
      [(''email'', map_of b ''email''),
       (''password'', map_of b ''password''),
       (''firstName'', map_of b ''firstName''),
       (''lastName'', map_of b ''lastName''),
       (''phone'', map_of b ''phone'')] = Inr (u, db') \<and>
    signToken c e now u = Inr token"
  then show "register c e db now req = (json_response 201 (tokenBody token u), db')"
    by (simp add: register_def)
next
  assume "status (fst (register c e db2 now2 req2)) \<noteq> 201"
  then show "\<exists>m. fst (register c e db2 now2 req2) = json_response 400 (errorBody m) \<and>
             (m = ''User already exists'' \<or>
              (\<exists>err. m = message err \<and>
                 (properties (reqBody req2) = Inl err \<or>
                  (\<exists>q. User_findOne c db2 q None = Inl err) \<or>
                  (\<exists>input. User_create c db2 input = Inl err) \<or>
                  (\<exists>u2. signToken c e now2 u2 = Inl err))))"
    unfolding register_def
    by (fastforce simp: json_response_def split: sum.splits option.splits prod.splits)
qed

text \<open>
  Alice's first registration, with the three-letter password \<^verbatim>\<open>abc\<close>, on
  the store modelled from the spec: the answer is 201 and her identity is
  stored. Her second one is refused for the email, not for the password.
\<close>

theorem register_without_password_rule_witness:
  "member (reqBody aliceRegistration) ''password'' = Inr (Some (JStr ''abc'')) \<and>
   properties (reqBody aliceRegistration) =
     Inr [(''email'', JStr ''alice@example.in''), (''password'', JStr ''abc''),
          (''firstName'', JStr ''Alice'')] \<and>
   User_findOne reference [] [(''email'', Some (JStr ''alice@example.in''))] None = Inr None \<and>
   User_create reference []
     [(''email'', Some (JStr ''alice@example.in'')), (''password'', Some (JStr ''abc'')),
      (''firstName'', Some (JStr ''Alice'')), (''lastName'', None), (''phone'', None)] =
     Inr (aliceDoc, [aliceDoc]) \<and>
   signToken reference exampleEnv 100 aliceDoc =
     Inr ''u1.100.604900.0094060011uereh_terces_twj_ruoy'' \<and>
   register reference exampleEnv [] 100 aliceRegistration =
     (json_response 201 (tokenBody ''u1.100.604900.0094060011uereh_terces_twj_ruoy'' aliceDoc),
      [aliceDoc]) \<and>
   status (fst (register reference exampleEnv [aliceDoc] 500 aliceRegistration)) \<noteq> 201 \<and>
   fst (register reference exampleEnv [aliceDoc] 500 aliceRegistration) =
     json_response 400 (errorBody ''User already exists'')"
proof -
  let ?b = "[(''email'', JStr ''alice@example.in''), (''password'', JStr ''abc''),
             (''firstName'', JStr ''Alice'')]"
  have p: "properties (reqBody aliceRegistration) = Inr ?b"
    by (simp add: aliceRegistration_def jsonRequest_def)
  have f: "User_findOne reference [] [(''email'', Some (JStr ''alice@example.in''))] None = Inr None"
    by (simp add: reference_def store_findOne_def)
  have cr: "User_create reference []
     [(''email'', Some (JStr ''alice@example.in'')), (''password'', Some (JStr ''abc'')),
      (''firstName'', Some (JStr ''Alice'')), (''lastName'', None), (''phone'', None)] =
     Inr (aliceDoc, [aliceDoc])"
    by (simp add: reference_def store_create_def hashPassword_def aliceDoc_def Let_def)
  have sg: "signToken reference exampleEnv 100 aliceDoc =
     Inr ''u1.100.604900.0094060011uereh_terces_twj_ruoy''"
    by (simp add: scenario_defs reference_defs response_defs Let_def)
  have r2: "fst (register reference exampleEnv [aliceDoc] 500 aliceRegistration) =
     json_response 400 (errorBody ''User already exists'')"
    by (simp add: register_def scenario_defs reference_defs response_defs)
  then have n2: "status (fst (register reference exampleEnv [aliceDoc] 500 aliceRegistration)) \<noteq> 201"
    by (simp add: json_response_def)
  note inst = register_without_password_rule [where req = aliceRegistration and b = ?b
      and c = reference and db = "[]" and u = aliceDoc and db' = "[aliceDoc]"
      and e = exampleEnv and now = 100
      and token = "''u1.100.604900.0094060011uereh_terces_twj_ruoy''"
      and ?db2.0 = "[aliceDoc]" and ?now2.0 = 500 and ?req2.0 = aliceRegistration]
  have r1: "register reference exampleEnv [] 100 aliceRegistration =
     (json_response 201 (tokenBody ''u1.100.604900.0094060011uereh_terces_twj_ruoy'' aliceDoc),
      [aliceDoc])"
    using inst p f cr sg by simp
  have pw: "member (reqBody aliceRegistration) ''password'' = Inr (Some (JStr ''abc''))"
    by (simp add: aliceRegistration_def jsonRequest_def)
  show ?thesis
    using pw p f cr sg r1 n2 r2 by blast
qed

section \<open>A subject that no longer exists\<close>

text \<open>
  Claim C3 says that \<^verbatim>\<open>protect\<close> answers 401 when the token verifies and
  its subject is no longer in the store. The code does not: it stores the
  \<^verbatim>\<open>null\<close> of the lookup in \<^verbatim>\<open>req.user\<close> and calls
  \<^verbatim>\<open>next()\<close>. With Alice's token on a store without Alice,
  \<^verbatim>\<open>protect\<close> continues; logout then answers 200, the profile route
  fails with 500 on \<^verbatim>\<open>req.user._id\<close>, and admin logout throws on
  \<^verbatim>\<open>req.user.role\<close> without answering.
\<close>

theorem protect_continues_without_subject:
  "jwt_verify reference aliceToken (JWT_SECRET exampleEnv) 400 =
     Inr (JObj [(''id'', JStr ''u1''), (''iat'', JNum 200), (''exp'', JNum 605000)]) \<and>
   User_findById reference [] (Some (JStr ''u1'')) (Some ''-password'') = Inr None \<and>
   protect reference exampleEnv [] 400 (bearer aliceToken) =
     Next ((bearer aliceToken)\<lparr>user := None\<rparr>) \<and>
   logout_route reference exampleEnv [] 400 (bearer aliceToken) =
     (json_response 200 (successMessage ''Logged out successfully''), []) \<and>
   me_route reference exampleEnv [] 400 (bearer aliceToken) =
     (json_response 500 (errorBody ''Error retrieving user profile''), []) \<and>
   adminLogout_route reference exampleEnv [] 400 (bearer aliceToken) =
     Inl (Error ''Cannot read properties of null (reading role)'')"
proof -
  have v: "jwt_verify reference aliceToken (JWT_SECRET exampleEnv) 400 =
     Inr (JObj [(''id'', JStr ''u1''), (''iat'', JNum 200), (''exp'', JNum 605000)])"
    using alice_token_valid by (simp add: reference_def exampleEnv_def)
  have f: "User_findById reference [] (Some (JStr ''u1'')) (Some ''-password'') = Inr None"
    by (simp add: reference_def store_findById_def)
  have b: "bearerToken (bearer aliceToken) = Some aliceToken"
    by (rule bearerToken_bearer) (simp add: aliceToken_def)
  have n: "aliceToken \<noteq> []"
    by (simp add: aliceToken_def)
  have p: "protect reference exampleEnv [] 400 (bearer aliceToken) =
     Next ((bearer aliceToken)\<lparr>user := None\<rparr>)"
    by (rule protect_Next [OF b n v _ f]) simp
  have u: "user ((bearer aliceToken)\<lparr>user := None\<rparr>) = None"
    by simp
  show ?thesis
    using v f p u
    by (simp add: logout_route_def logout_def me_route_def me_def adminLogout_route_def
        adminLogout_def)
qed

section \<open>A store that fails\<close>

text \<open>
  Claim C8 says that a failure of the data store is answered with a 5xx
  response without internal detail. Admin login does so (500 with a fixed
  message). Login and register do not: with a store that refuses the
  connection, both answer 400 and put the message of the error in the body.
\<close>

theorem login_leaks_store_error:
  "User_findOne unreachable [aliceDoc] [(''email'', Some (JStr ''alice@example.in''))]
     (Some ''+password'') = Inl (Error ''connect ECONNREFUSED 127.0.0.1:27017'') \<and>
   login unreachable exampleEnv [aliceDoc] 400 aliceLogin =
     (json_response 400 (errorBody ''connect ECONNREFUSED 127.0.0.1:27017''), [aliceDoc]) \<and>
   register unreachable exampleEnv [aliceDoc] 400 aliceRegistration =
     (json_response 400 (errorBody ''connect ECONNREFUSED 127.0.0.1:27017''), [aliceDoc]) \<and>
   adminLogin unreachable exampleEnv [aliceDoc] 400 aliceLogin =
     (json_response 500 (errorBody ''Error during admin login''), [aliceDoc])"
  by (simp add: login_def register_def adminLogin_def unreachable_def reference_def
      aliceLogin_def aliceRegistration_def jsonRequest_def)

end
